theory Spec2Isabelle
  imports Main "HOL-Library.Log_Nat"
begin

section \<open>Strings and characters\<close>

text \<open>
  A Python \<open>str\<close> is modelled as a \<^typ>\<open>string\<close>, one \<^typ>\<open>char\<close> per code point, so the
  model covers the strings whose code points are below 256. In that range the decimal
  digits (what \<open>\d\<close> matches and what \<open>int()\<close> and \<open>float()\<close> read as digits) are
  \<open>0\<close> to \<open>9\<close>, and the characters that \<open>int()\<close> and \<open>float()\<close> strip as white space are
  U+0009 to U+000D, U+0020, U+0085 and U+00A0.
\<close>

definition in_range :: "char \<Rightarrow> char \<Rightarrow> char \<Rightarrow> bool" where
  "in_range lo hi c = ((of_char lo :: nat) \<le> of_char c \<and> (of_char c :: nat) \<le> of_char hi)"

definition is_digit :: "char \<Rightarrow> bool" where
  "is_digit c = in_range CHR ''0'' CHR ''9'' c"

definition is_space :: "char \<Rightarrow> bool" where
  "is_space c = (in_range CHR 0x09 CHR 0x0D c \<or> c = CHR 0x20 \<or> c = CHR 0x85 \<or> c = CHR 0xA0)"

section \<open>Regular expressions: \<open>re.match\<close>\<close>

text \<open>
  The four patterns of \<open>validate_response\<close> use anchors, literals, \<open>\d\<close>, character
  classes, alternation, \<open>?\<close>, \<open>+\<close> and \<open>{m,n}\<close>. A pattern is a term of \<open>regex\<close>;
  \<open>run r k\<close> is the backtracking matcher as a list of successes: every cursor (position
  reached, input left) at which a match of \<open>r\<close> started at cursor \<open>k\<close> can end, the greedy
  choice first. \<open>re.match\<close> returns a match object exactly when there is one.
\<close>

datatype cls_item = Range char char | One char

datatype regex =
    Eps
  | Bol
  | Eol
  | Chr char
  | Digit
  | Cls "cls_item list"
  | Seq regex regex
  | Alt regex regex
  | Opt regex
  | Plus regex
  | Rep nat nat regex

type_synonym cursor = "nat \<times> string"

fun in_item :: "char \<Rightarrow> cls_item \<Rightarrow> bool" where
  "in_item c (Range lo hi) = in_range lo hi c"
| "in_item c (One x) = (c = x)"

definition in_class :: "cls_item list \<Rightarrow> char \<Rightarrow> bool" where
  "in_class items c = list_ex (in_item c) items"

fun eat :: "(char \<Rightarrow> bool) \<Rightarrow> cursor \<Rightarrow> cursor list" where
  "eat p (i, []) = []"
| "eat p (i, c # cs) = (if p c then [(Suc i, cs)] else [])"

text \<open>\<open>times n f k\<close>: exactly \<open>n\<close> matches in a row; \<open>upto_times n f k\<close>: at most \<open>n\<close>,
  the longest first.\<close>

fun times :: "nat \<Rightarrow> ('a \<Rightarrow> 'a list) \<Rightarrow> 'a \<Rightarrow> 'a list" where
  "times 0 f k = [k]"
| "times (Suc n) f k = concat (map (times n f) (f k))"

fun upto_times :: "nat \<Rightarrow> ('a \<Rightarrow> 'a list) \<Rightarrow> 'a \<Rightarrow> 'a list" where
  "upto_times 0 f k = [k]"
| "upto_times (Suc n) f k = concat (map (upto_times n f) (f k)) @ [k]"

text \<open>
  Without \<open>re.MULTILINE\<close>, \<open>^\<close> matches at the start of the string only, and \<open>$\<close> at the
  end of the string or just before a newline that ends the string. A repetition under
  \<open>+\<close> that consumes nothing changes no cursor, so as many rounds as there are characters
  left reach every cursor that \<open>+\<close> reaches.
\<close>

primrec run :: "regex \<Rightarrow> cursor \<Rightarrow> cursor list" where
  "run Eps k = [k]"
| "run Bol k = (if fst k = 0 then [k] else [])"
| "run Eol k = (if snd k = [] \<or> snd k = [CHR 0x0A] then [k] else [])"
| "run (Chr c) k = eat (\<lambda>x. x = c) k"
| "run Digit k = eat is_digit k"
| "run (Cls items) k = eat (in_class items) k"
| "run (Seq a b) k = concat (map (run b) (run a k))"
| "run (Alt a b) k = run a k @ run b k"
| "run (Opt a) k = run a k @ [k]"
| "run (Plus a) k = concat (map (upto_times (length (snd k)) (run a)) (run a k))"
| "run (Rep lo hi a) k = concat (map (upto_times (hi - lo) (run a)) (times lo (run a) k))"

definition seq :: "regex list \<Rightarrow> regex" where
  "seq rs = foldr Seq rs Eps"

definition re_match :: "regex \<Rightarrow> string \<Rightarrow> bool" where
  "re_match r s = (run r (0, s) \<noteq> [])"

section \<open>\<open>validate_response\<close>\<close>

record rule =
  pattern :: regex
  message :: string

text \<open>\<open>^[a-zA-Z0-9_.+-]+@[a-zA-Z0-9-]+\.[a-zA-Z0-9-.]+$\<close>\<close>

definition email_pattern :: regex where
  "email_pattern = seq
     [Bol,
      Plus (Cls [Range CHR ''a'' CHR ''z'', Range CHR ''A'' CHR ''Z'', Range CHR ''0'' CHR ''9'',
                 One CHR ''_'', One CHR ''.'', One CHR ''+'', One CHR ''-'']),
      Chr CHR ''@'',
      Plus (Cls [Range CHR ''a'' CHR ''z'', Range CHR ''A'' CHR ''Z'', Range CHR ''0'' CHR ''9'',
                 One CHR ''-'']),
      Chr CHR ''.'',
      Plus (Cls [Range CHR ''a'' CHR ''z'', Range CHR ''A'' CHR ''Z'', Range CHR ''0'' CHR ''9'',
                 One CHR ''-'', One CHR ''.'']),
      Eol]"

text \<open>\<open>^\+?[1-9]\d{1,14}$\<close>\<close>

definition phone_pattern :: regex where
  "phone_pattern = seq
     [Bol, Opt (Chr CHR ''+''), Cls [Range CHR ''1'' CHR ''9''], Rep 1 14 Digit, Eol]"

text \<open>\<open>^\d+$\<close>\<close>

definition number_pattern :: regex where
  "number_pattern = seq [Bol, Plus Digit, Eol]"

text \<open>\<open>^([1-9]|10)$\<close>\<close>

definition scale_pattern :: regex where
  "scale_pattern = seq
     [Bol, Alt (Cls [Range CHR ''1'' CHR ''9'']) (Seq (Chr CHR ''1'') (Chr CHR ''0'')), Eol]"

definition validation_rules :: "string \<Rightarrow> rule option" where
  "validation_rules field_type =
     (if field_type = ''email'' then
        Some \<lparr>pattern = email_pattern,
              message = ''Please enter a valid email address (e.g., name@company.com)''\<rparr>
      else if field_type = ''phone'' then
        Some \<lparr>pattern = phone_pattern,
              message = ''Please enter a valid phone number with country code (e.g., +1234567890)''\<rparr>
      else if field_type = ''number'' then
        Some \<lparr>pattern = number_pattern, message = ''Please enter a valid number''\<rparr>
      else if field_type = ''scale'' then
        Some \<lparr>pattern = scale_pattern, message = ''Please enter a number between 1-10''\<rparr>
      else None)"

text \<open>
  The result of \<open>validate_response\<close>; the message it shows with \<open>st.error\<close> on a failure
  is \<open>validation_error\<close>.
\<close>

definition validate_response :: "string \<Rightarrow> string \<Rightarrow> bool" where
  "validate_response response field_type =
     (case validation_rules field_type of
        Some r \<Rightarrow> (if \<not> re_match (pattern r) response then False else True)
      | None \<Rightarrow> True)"

definition validation_error :: "string \<Rightarrow> string \<Rightarrow> string option" where
  "validation_error response field_type =
     (case validation_rules field_type of
        Some r \<Rightarrow> (if \<not> re_match (pattern r) response then Some (message r) else None)
      | None \<Rightarrow> None)"

section \<open>Python values, \<open>int()\<close> and \<open>float()\<close>\<close>

datatype py_error = ValueError | TypeError | OverflowError | KeyError

text \<open>
  A \<open>float\<close> is an IEEE 754 double: a finite one is given by its exact value, a rational
  number (\<open>-0.0\<close> is \<open>Finite 0\<close>: it compares as \<open>0.0\<close> does).
\<close>

datatype pyfloat = Finite rat | PosInf | NegInf | NaN

text \<open>
  The values a lead-data dictionary and a lead-score record hold: the strings the user
  typed, the booleans of \<open>scheduled\<close>, numbers, and the \<open>datetime\<close> of a lead-score
  record (a clock reading).
\<close>

datatype pyval = VStr string | VInt int | VFloat pyfloat | VBool bool | VDatetime nat

definition strip :: "string \<Rightarrow> string" where
  "strip s = rev (dropWhile is_space (rev (dropWhile is_space s)))"

fun sign :: "string \<Rightarrow> bool \<times> string" where
  "sign [] = (False, [])"
| "sign (c # cs) =
     (if c = CHR ''-'' then (True, cs) else if c = CHR ''+'' then (False, cs) else (False, c # cs))"

text \<open>
  \<open>digitpart ::= digit (["_"] digit)*\<close>: the digits read (underscores dropped) and the
  input left, or \<open>None\<close> when the input does not start with a digit.
\<close>

fun more_digits :: "string \<Rightarrow> string \<times> string" where
  "more_digits [] = ([], [])"
| "more_digits [c] = (if is_digit c then ([c], []) else ([], [c]))"
| "more_digits (c # d # cs) =
     (if is_digit c then (case more_digits (d # cs) of (ds, r) \<Rightarrow> (c # ds, r))
      else if c = CHR ''_'' \<and> is_digit d then (case more_digits cs of (ds, r) \<Rightarrow> (d # ds, r))
      else ([], c # d # cs))"

definition digitpart :: "string \<Rightarrow> (string \<times> string) option" where
  "digitpart s =
     (case s of
        [] \<Rightarrow> None
      | c # cs \<Rightarrow> if is_digit c then (case more_digits cs of (ds, r) \<Rightarrow> Some (c # ds, r)) else None)"

definition digit_value :: "char \<Rightarrow> int" where
  "digit_value c = of_char c - of_char CHR ''0''"

definition decimal :: "string \<Rightarrow> int" where
  "decimal ds = foldl (\<lambda>n c. 10 * n + digit_value c) 0 ds"

definition signed :: "bool \<Rightarrow> int \<Rightarrow> int" where
  "signed neg n = (if neg then - n else n)"

text \<open>
  \<open>int(s)\<close> for a string, base 10: white space stripped, an optional sign, one
  \<open>digitpart\<close> up to the end. CPython from 3.11 on (and the security releases of 3.7 to
  3.10) refuses a string of more than \<open>sys.get_int_max_str_digits()\<close> digits with a
  \<open>ValueError\<close>; the setting is the parameter \<open>max_str_digits\<close> (4300 unless the
  interpreter is started otherwise, which this program does not do; 0 switches the limit
  off and stands for the older interpreters). The limit never applies to 640 digits or
  fewer.
\<close>

definition int_of_str :: "nat \<Rightarrow> string \<Rightarrow> py_error + int" where
  "int_of_str max_str_digits s =
     (case sign (strip s) of (neg, body) \<Rightarrow>
        (case digitpart body of
           Some (ds, []) \<Rightarrow>
             if 0 < max_str_digits \<and> 640 < length ds \<and> max_str_digits < length ds
             then Inl ValueError
             else Inr (signed neg (decimal ds))
         | _ \<Rightarrow> Inl ValueError))"

definition trunc :: "rat \<Rightarrow> int" where
  "trunc q = (if 0 \<le> q then \<lfloor>q\<rfloor> else \<lceil>q\<rceil>)"

fun py_int :: "nat \<Rightarrow> pyval \<Rightarrow> py_error + int" where
  "py_int mx (VStr s) = int_of_str mx s"
| "py_int mx (VInt n) = Inr n"
| "py_int mx (VFloat (Finite q)) = Inr (trunc q)"
| "py_int mx (VFloat NaN) = Inl ValueError"
| "py_int mx (VFloat PosInf) = Inl OverflowError"
| "py_int mx (VFloat NegInf) = Inl OverflowError"
| "py_int mx (VBool b) = Inr (if b then 1 else 0)"
| "py_int mx (VDatetime t) = Inl TypeError"

subsection \<open>Rounding to a double\<close>

definition pow2 :: "int \<Rightarrow> rat" where
  "pow2 e = (if 0 \<le> e then 2 ^ nat e else 1 / 2 ^ nat (- e))"

definition pow10 :: "int \<Rightarrow> rat" where
  "pow10 e = (if 0 \<le> e then 10 ^ nat e else 1 / 10 ^ nat (- e))"

definition round_half_even :: "rat \<Rightarrow> int" where
  "round_half_even x =
     (let n = \<lfloor>x\<rfloor>; d = x - of_int n
      in if d < 1 / 2 then n else if 1 / 2 < d then n + 1 else if even n then n else n + 1)"

text \<open>\<open>ilog2 x\<close> is the \<open>e\<close> with \<open>2 ^ e \<le> x < 2 ^ (e + 1)\<close>, for a positive \<open>x\<close>.\<close>

definition ilog2 :: "rat \<Rightarrow> int" where
  "ilog2 x =
     (case quotient_of x of (p, q) \<Rightarrow>
        let e = bitlen p - bitlen q in if pow2 e \<le> x then e else e - 1)"

text \<open>
  The nearest double, ties to the even significand: 53 significant bits, the least
  exponent -1022 (below it the spacing stays \<open>2 ^ -1074\<close>), and an infinity when the
  rounded value reaches \<open>2 ^ 1024\<close>.
\<close>

definition round_double :: "rat \<Rightarrow> pyfloat" where
  "round_double x =
     (if x = 0 then Finite 0
      else
        let e = max (ilog2 \<bar>x\<bar>) (- 1022);
            ulp = pow2 (e - 52);
            r = of_int (round_half_even (\<bar>x\<bar> / ulp)) * ulp
        in if pow2 1024 \<le> r then (if 0 < x then PosInf else NegInf)
           else Finite (if 0 < x then r else - r))"

subsection \<open>\<open>float()\<close>\<close>

text \<open>
  \<open>float(s)\<close> for a string: white space stripped, an optional sign, then \<open>inf\<close>,
  \<open>infinity\<close> or \<open>nan\<close> in any case, or
  \<open>floatnumber ::= ([digitpart] "." digitpart | digitpart ["."]) [("e" | "E") [sign] digitpart]\<close>,
  rounded correctly; a number too large is an infinity, not an error.
\<close>

definition lower :: "char \<Rightarrow> char" where
  "lower c = (if in_range CHR ''A'' CHR ''Z'' c then char_of (of_char c + (32 :: nat)) else c)"

definition exponent :: "string \<Rightarrow> int option" where
  "exponent r =
     (case r of
        [] \<Rightarrow> Some 0
      | c # r' \<Rightarrow>
          if c = CHR ''e'' \<or> c = CHR ''E'' then
            (case sign r' of (neg, r'') \<Rightarrow>
               (case digitpart r'' of
                  Some (ds, []) \<Rightarrow> Some (signed neg (decimal ds))
                | _ \<Rightarrow> None))
          else None)"

definition floatnumber :: "string \<Rightarrow> (string \<times> string \<times> int) option" where
  "floatnumber s =
     (case digitpart s of
        Some (ip, r) \<Rightarrow>
          (case r of
             [] \<Rightarrow> Some (ip, [], 0)
           | c # r' \<Rightarrow>
               if c = CHR ''.'' then
                 (case digitpart r' of
                    Some (fp, r'') \<Rightarrow> map_option (\<lambda>e. (ip, fp, e)) (exponent r'')
                  | None \<Rightarrow> map_option (\<lambda>e. (ip, [], e)) (exponent r'))
               else map_option (\<lambda>e. (ip, [], e)) (exponent r))
      | None \<Rightarrow>
          (case s of
             [] \<Rightarrow> None
           | c # r \<Rightarrow>
               if c = CHR ''.'' then
                 (case digitpart r of
                    Some (fp, r') \<Rightarrow> map_option (\<lambda>e. ([], fp, e)) (exponent r')
                  | None \<Rightarrow> None)
               else None))"

definition literal_value :: "string \<times> string \<times> int \<Rightarrow> rat" where
  "literal_value l =
     (case l of (ip, fp, e) \<Rightarrow> of_int (decimal (ip @ fp)) * pow10 (e - int (length fp)))"

definition float_of_str :: "string \<Rightarrow> py_error + pyfloat" where
  "float_of_str s =
     (case sign (strip s) of (neg, body) \<Rightarrow>
        if map lower body = ''inf'' \<or> map lower body = ''infinity''
        then Inr (if neg then NegInf else PosInf)
        else if map lower body = ''nan'' then Inr NaN
        else
          (case floatnumber body of
             None \<Rightarrow> Inl ValueError
           | Some l \<Rightarrow> Inr (round_double (if neg then - literal_value l else literal_value l))))"

text \<open>\<open>float(n)\<close> for an \<open>int\<close> rounds the same way, but raises where the result would
  be an infinity.\<close>

definition float_of_int :: "int \<Rightarrow> py_error + pyfloat" where
  "float_of_int n =
     (case round_double (of_int n) of
        Finite q \<Rightarrow> Inr (Finite q)
      | _ \<Rightarrow> Inl OverflowError)"

fun py_float :: "pyval \<Rightarrow> py_error + pyfloat" where
  "py_float (VStr s) = float_of_str s"
| "py_float (VInt n) = float_of_int n"
| "py_float (VFloat f) = Inr f"
| "py_float (VBool b) = Inr (Finite (if b then 1 else 0))"
| "py_float (VDatetime t) = Inl TypeError"

text \<open>\<open>f >= n\<close> for a float and an \<open>int\<close>: exact, and false for a NaN.\<close>

fun float_ge :: "pyfloat \<Rightarrow> int \<Rightarrow> bool" where
  "float_ge (Finite q) n = (of_int n \<le> q)"
| "float_ge PosInf n = True"
| "float_ge NegInf n = False"
| "float_ge NaN n = False"

section \<open>\<open>qualify_lead\<close>\<close>

type_synonym lead_data = "string \<rightharpoonup> pyval"

record criterion =
  threshold :: int
  weight :: rat

text \<open>
  The weights are the doubles nearest to 0.4 and 0.3; the products \<open>0.4 * 100\<close> and
  \<open>0.3 * 100\<close> round to exactly 40.0 and 30.0, and every sum of them is exact, so the
  score is computed here over the rationals with the weights 4/10 and 3/10.
\<close>

definition QUALIFICATION_CRITERIA :: "string \<rightharpoonup> criterion" where
  "QUALIFICATION_CRITERIA =
     [''budget'' \<mapsto> \<lparr>threshold = 10000, weight = 4 / 10\<rparr>,
      ''timeline'' \<mapsto> \<lparr>threshold = 30, weight = 3 / 10\<rparr>,
      ''interest_level'' \<mapsto> \<lparr>threshold = 7, weight = 3 / 10\<rparr>]"

definition dict_get :: "('k \<rightharpoonup> 'v) \<Rightarrow> 'k \<Rightarrow> 'v \<Rightarrow> 'v" where
  "dict_get d k dflt = (case d k of Some v \<Rightarrow> v | None \<Rightarrow> dflt)"

definition dict_item :: "('k \<rightharpoonup> 'v) \<Rightarrow> 'k \<Rightarrow> py_error + 'v" where
  "dict_item d k = (case d k of Some v \<Rightarrow> Inr v | None \<Rightarrow> Inl KeyError)"

text \<open>The score that the three \<open>if\<close> statements add up, from the parsed values.\<close>

definition lead_score :: "pyfloat \<Rightarrow> int \<Rightarrow> int \<Rightarrow> py_error + rat" where
  "lead_score budget timeline interest_level =
     (case dict_item QUALIFICATION_CRITERIA ''budget'' of
        Inl e \<Rightarrow> Inl e
      | Inr cb \<Rightarrow>
         (case dict_item QUALIFICATION_CRITERIA ''timeline'' of
            Inl e \<Rightarrow> Inl e
          | Inr ct \<Rightarrow>
             (case dict_item QUALIFICATION_CRITERIA ''interest_level'' of
                Inl e \<Rightarrow> Inl e
              | Inr ci \<Rightarrow>
                 (let score = 0;
                      score = (if float_ge budget (threshold cb)
                               then score + weight cb * 100 else score);
                      score = (if timeline \<le> threshold ct
                               then score + weight ct * 100 else score);
                      score = (if interest_level \<ge> threshold ci
                               then score + weight ci * 100 else score)
                  in Inr score))))"

definition categorize :: "rat \<Rightarrow> string" where
  "categorize score = (if score \<ge> 80 then ''Hot'' else if score \<ge> 50 then ''Warm'' else ''Cold'')"

text \<open>The body of the \<open>try\<close>: \<open>Inl e\<close> when it raises \<open>e\<close>.\<close>

definition qualify_lead_try :: "nat \<Rightarrow> lead_data \<Rightarrow> py_error + string" where
  "qualify_lead_try mx ld =
     (case py_float (dict_get ld ''budget'' (VInt 0)) of
        Inl e \<Rightarrow> Inl e
      | Inr budget \<Rightarrow>
         (case py_int mx (dict_get ld ''timeline'' (VInt 999)) of
            Inl e \<Rightarrow> Inl e
          | Inr timeline \<Rightarrow>
             (case py_int mx (dict_get ld ''interest_level'' (VInt 0)) of
                Inl e \<Rightarrow> Inl e
              | Inr interest_level \<Rightarrow>
                 (case lead_score budget timeline interest_level of
                    Inl e \<Rightarrow> Inl e
                  | Inr score \<Rightarrow> Inr (categorize score)))))"

definition qualify_lead :: "nat \<Rightarrow> lead_data \<Rightarrow> string" where
  "qualify_lead mx ld = (case qualify_lead_try mx ld of Inr category \<Rightarrow> category | Inl e \<Rightarrow> ''Cold'')"

section \<open>The session and \<open>get_next_question\<close>\<close>

text \<open>A question is a dictionary with the keys \<open>question\<close> and \<open>type\<close>, and \<open>field\<close> when
  it asks for a field.\<close>

record question =
  question_text :: string
  field :: "string option"
  qtype :: string

record interaction =
  timestamp :: nat
  event_type :: string
  metadata :: "string \<rightharpoonup> pyval"

record analytics =
  interactions :: "interaction list"
  conversion_rate :: int
  lead_scores :: "lead_data list"

record session =
  messages :: "(string \<rightharpoonup> string) list"
  lead_data :: lead_data
  conversation_stage :: string
  analytics :: analytics

text \<open>Lines 16 to 27: what a run of the script finds in an empty session state.\<close>

definition initial_session :: session where
  "initial_session =
     \<lparr>messages = [], lead_data = Map.empty, conversation_stage = ''greeting'',
      analytics = \<lparr>interactions = [], conversion_rate = 0, lead_scores = []\<rparr>\<rparr>"

text \<open>The waving hand of the greeting, U+1F44B, is written as its four UTF-8 bytes.\<close>

definition stages_greeting :: question where
  "stages_greeting =
     \<lparr>question_text = ''Hi there! '' @ [CHR 0xF0, CHR 0x9F, CHR 0x91, CHR 0x8B]
        @ '' Welcome to Opolla. How can we help you today?'',
      field = None, qtype = ''greeting''\<rparr>"

definition stages_qualify :: "question list" where
  "stages_qualify =
     [\<lparr>question_text = ''What'' @ [CHR 0x27] @ ''s your estimated budget for this project? (USD)'',
       field = Some ''budget'', qtype = ''number''\<rparr>,
      \<lparr>question_text = ''What'' @ [CHR 0x27] @ ''s your ideal timeline for implementation (in days)?'',
       field = Some ''timeline'', qtype = ''number''\<rparr>,
      \<lparr>question_text = ''On a scale of 1-10, how urgent is this need?'',
       field = Some ''interest_level'', qtype = ''scale''\<rparr>]"

definition stages_contact :: "question list" where
  "stages_contact =
     [\<lparr>question_text = ''What'' @ [CHR 0x27] @ ''s your full name?'',
       field = Some ''name'', qtype = ''text''\<rparr>,
      \<lparr>question_text = ''What'' @ [CHR 0x27] @ ''s your email address?'',
       field = Some ''email'', qtype = ''email''\<rparr>,
      \<lparr>question_text = ''What'' @ [CHR 0x27] @ ''s the best phone number to reach you?'',
       field = Some ''phone'', qtype = ''phone''\<rparr>]"

definition stages_schedule :: question where
  "stages_schedule =
     \<lparr>question_text = ''Would you like to schedule a call with our expert?'',
      field = None, qtype = ''schedule''\<rparr>"

definition fallback_question :: question where
  "fallback_question =
     \<lparr>question_text = ''How can I help you today?'', field = None, qtype = ''fallback''\<rparr>"

text \<open>
  The \<open>for\<close> loop over the questions of a stage: the first question whose field is not
  in the lead data, \<open>None\<close> when the loop runs to its end; \<open>q["field"]\<close> raises a
  \<open>KeyError\<close> for a question with no field.
\<close>

fun first_unanswered :: "question list \<Rightarrow> lead_data \<Rightarrow> py_error + question option" where
  "first_unanswered [] ld = Inr None"
| "first_unanswered (q # qs) ld =
     (case field q of
        None \<Rightarrow> Inl KeyError
      | Some f \<Rightarrow> if ld f = None then Inr (Some q) else first_unanswered qs ld)"

text \<open>
  \<open>get_next_question\<close> reads and writes the session state, so it takes the session and
  returns the question with the session it leaves. An exception in the \<open>try\<close> is caught
  there and the function goes on to return the fallback question.
\<close>

function get_next_question :: "session \<Rightarrow> question \<times> session" where
  "get_next_question s =
     (let current_stage = conversation_stage s in
      if current_stage = ''greeting'' then (stages_greeting, s)
      else if current_stage = ''qualify'' then
        (case first_unanswered stages_qualify (lead_data s) of
           Inl e \<Rightarrow> (fallback_question, s)
         | Inr (Some q) \<Rightarrow> (q, s)
         | Inr None \<Rightarrow> get_next_question (s\<lparr>conversation_stage := ''contact''\<rparr>))
      else if current_stage = ''contact'' then
        (case first_unanswered stages_contact (lead_data s) of
           Inl e \<Rightarrow> (fallback_question, s)
         | Inr (Some q) \<Rightarrow> (q, s)
         | Inr None \<Rightarrow> (stages_schedule, s\<lparr>conversation_stage := ''schedule''\<rparr>))
      else if current_stage = ''schedule'' then (stages_schedule, s)
      else (fallback_question, s))"
  by pat_completeness auto

termination
proof (relation "measure (\<lambda>s. if conversation_stage s = ''qualify'' then 1 else 0)")
  fix s :: session and x
  assume "x = conversation_stage s" and "x = ''qualify''"
  then have "conversation_stage s = ''qualify''"
    by simp
  then show "(s\<lparr>conversation_stage := ''contact''\<rparr>, s)
      \<in> measure (\<lambda>s. if conversation_stage s = ''qualify'' then 1 else 0)"
    by simp
qed simp

declare get_next_question.simps [simp del]

section \<open>\<open>main\<close>: one run of the script\<close>

text \<open>
  Streamlit runs the script from the top at every interaction. What a run reads from the
  page is \<open>ui\<close>: the text in the input widget of each key, and which button was pressed.
  \<open>clock n\<close> is the reading of \<open>datetime.datetime.now()\<close> at the \<open>n\<close>-th call of a run,
  also where the source stores its \<open>isoformat()\<close>. \<open>st.rerun()\<close> stops the run at once:
  a run ends as \<open>Rerun\<close> with the session it leaves, or reaches the end of \<open>main\<close>.
  What a run draws on the page is not part of the model.
\<close>

record ui =
  text_input :: "string \<Rightarrow> string"
  yes_button :: bool
  no_button :: bool
  reset_button :: bool

datatype run_result = Rerun session | Finished session

fun session_of :: "run_result \<Rightarrow> session" where
  "session_of (Rerun s) = s"
| "session_of (Finished s) = s"

definition track_analytics ::
  "string \<Rightarrow> (string \<rightharpoonup> pyval) option \<Rightarrow> nat \<Rightarrow> session \<Rightarrow> session" where
  "track_analytics etype mdata now s =
     s\<lparr>analytics := (analytics s)
        \<lparr>interactions := interactions (analytics s) @
           [\<lparr>timestamp = now, event_type = etype,
             metadata = (case mdata of Some m \<Rightarrow> m | None \<Rightarrow> Map.empty)\<rparr>]\<rparr>\<rparr>"

text \<open>Lines 196 to 234, the main conversation handler.\<close>

definition conversation_handler :: "(nat \<Rightarrow> nat) \<Rightarrow> ui \<Rightarrow> session \<Rightarrow> run_result" where
  "conversation_handler clock u s =
     (if conversation_stage s \<noteq> ''completed'' then
        (case get_next_question s of (next_q, s1) \<Rightarrow>
           if qtype next_q = ''greeting'' then Rerun (s1\<lparr>conversation_stage := ''qualify''\<rparr>)
           else if qtype next_q = ''schedule'' then
             (if yes_button u then
                Rerun (track_analytics ''meeting_scheduled'' None (clock 0)
                  (s1\<lparr>lead_data := (lead_data s1)(''scheduled'' \<mapsto> VBool True)\<rparr>))
              else if no_button u then
                Rerun (track_analytics ''meeting_declined'' None (clock 0)
                  (s1\<lparr>lead_data := (lead_data s1)(''scheduled'' \<mapsto> VBool False)\<rparr>))
              else Finished s1)
           else
             (case field next_q of
                Some f \<Rightarrow>
                  (let user_input = text_input u (''input_'' @ f) in
                   if user_input \<noteq> [] then
                     (if validate_response user_input (qtype next_q) then
                        Rerun (track_analytics ''question_answered''
                          (Some [''field'' \<mapsto> VStr f, ''value'' \<mapsto> VStr user_input]) (clock 0)
                          (s1\<lparr>lead_data := (lead_data s1)(f \<mapsto> VStr user_input)\<rparr>))
                      else Finished s1)
                   else Finished s1)
              | None \<Rightarrow> Finished s1))
      else Finished s)"

text \<open>Lines 236 to 246, the final conversion handling.\<close>

definition required_fields :: "string list" where
  "required_fields = [''name'', ''email'', ''phone'', ''budget'', ''timeline'', ''interest_level'']"

definition final_conversion :: "nat \<Rightarrow> (nat \<Rightarrow> nat) \<Rightarrow> session \<Rightarrow> session" where
  "final_conversion mx clock s =
     (if list_all (\<lambda>f. lead_data s f \<noteq> None) required_fields then
        (let s1 = s\<lparr>conversation_stage := ''completed''\<rparr>;
             category = qualify_lead mx (lead_data s1);
             s2 = s1\<lparr>analytics := (analytics s1)
                    \<lparr>lead_scores := lead_scores (analytics s1) @
                       [(lead_data s1)(''category'' \<mapsto> VStr category,
                                       ''timestamp'' \<mapsto> VDatetime (clock 0))]\<rparr>\<rparr>
         in track_analytics ''conversion'' None (clock 1) s2)
      else s)"

text \<open>
  Lines 258 to 260, the reset button: \<open>st.session_state.clear()\<close> and a rerun, which
  finds the session state empty and sets it up again at lines 16 to 27.
\<close>

definition controls :: "ui \<Rightarrow> session \<Rightarrow> run_result" where
  "controls u s = (if reset_button u then Rerun initial_session else Finished s)"

definition main :: "nat \<Rightarrow> (nat \<Rightarrow> nat) \<Rightarrow> ui \<Rightarrow> session \<Rightarrow> run_result" where
  "main mx clock u s =
     (case conversation_handler clock u s of
        Rerun s1 \<Rightarrow> Rerun s1
      | Finished s1 \<Rightarrow> controls u (final_conversion mx clock s1))"

section \<open>The specification's words\<close>

text \<open>
  The Lead Scorer as the specification words it: 40 if the budget threshold is met, plus
  30 if the timeline threshold is met, plus 30 if the interest threshold is met; Hot from
  80, Warm from 50, Cold below.
\<close>

definition spec_score :: "bool \<Rightarrow> bool \<Rightarrow> bool \<Rightarrow> int" where
  "spec_score budget_met timeline_met interest_met =
     (if budget_met then 40 else 0) + (if timeline_met then 30 else 0)
       + (if interest_met then 30 else 0)"

definition spec_category :: "int \<Rightarrow> string" where
  "spec_category score =
     (if score \<ge> 80 then ''Hot'' else if score \<ge> 50 then ''Warm'' else ''Cold'')"

text \<open>Sessions and lead data that the theorems below are tried on.\<close>

definition hot_lead :: lead_data where
  "hot_lead =
     [''budget'' \<mapsto> VStr ''10000'', ''timeline'' \<mapsto> VStr ''30'', ''interest_level'' \<mapsto> VStr ''7'']"

definition warm_lead :: lead_data where
  "warm_lead =
     [''budget'' \<mapsto> VStr ''500'', ''timeline'' \<mapsto> VStr ''14'', ''interest_level'' \<mapsto> VStr ''9'']"

definition bad_budget_lead :: lead_data where
  "bad_budget_lead =
     [''budget'' \<mapsto> VStr ''ten thousand'', ''timeline'' \<mapsto> VStr ''30'',
      ''interest_level'' \<mapsto> VStr ''7'']"

definition qualify_session :: session where
  "qualify_session = initial_session\<lparr>conversation_stage := ''qualify''\<rparr>"

definition qualified_session :: session where
  "qualified_session = initial_session\<lparr>conversation_stage := ''qualify'', lead_data := hot_lead\<rparr>"

definition completed_session :: session where
  "completed_session = initial_session\<lparr>conversation_stage := ''completed''\<rparr>"

section \<open>Validation: the phone and scale patterns\<close>

text \<open>
  C2, as the code has it. The phone pattern \<open>^\+?[1-9]\d{1,14}$\<close> makes the plus sign
  optional, so \<open>validate_response\<close> accepts \<open>+14155551234\<close> and \<open>14155551234\<close>, and it
  accepts \<open>155551234\<close> as well: a first digit from 1 to 9 followed by eight more digits.
\<close>

theorem phone_pattern_accepts:
  "validate_response ''+14155551234'' ''phone''
   \<and> validate_response ''14155551234'' ''phone''
   \<and> validate_response ''155551234'' ''phone''"
  by code_simp

text \<open>C2 as the claim states it (\<open>155551234\<close> rejected) does not hold of the code.\<close>

theorem phone_rejects_counterexample:
  "\<not> (validate_response ''+14155551234'' ''phone''
      \<and> \<not> validate_response ''155551234'' ''phone''
      \<and> validate_response ''14155551234'' ''phone'')"
  by code_simp

text \<open>
  C8. With the field type \<open>scale\<close>, \<open>validate_response\<close> accepts each of the ten strings
  \<open>1\<close> to \<open>10\<close> and rejects \<open>0\<close> and \<open>11\<close>.
\<close>

theorem scale_pattern_one_to_ten:
  "validate_response ''1'' ''scale'' \<and> validate_response ''2'' ''scale''
   \<and> validate_response ''3'' ''scale'' \<and> validate_response ''4'' ''scale''
   \<and> validate_response ''5'' ''scale'' \<and> validate_response ''6'' ''scale''
   \<and> validate_response ''7'' ''scale'' \<and> validate_response ''8'' ''scale''
   \<and> validate_response ''9'' ''scale'' \<and> validate_response ''10'' ''scale''
   \<and> \<not> validate_response ''0'' ''scale'' \<and> \<not> validate_response ''11'' ''scale''"
  by code_simp

section \<open>The stage sequencer\<close>

lemma first_unanswered_qualify:
  "first_unanswered stages_qualify ld =
     (if ld ''budget'' = None then Inr (Some (stages_qualify ! 0))
      else if ld ''timeline'' = None then Inr (Some (stages_qualify ! Suc 0))
      else if ld ''interest_level'' = None then Inr (Some (stages_qualify ! Suc (Suc 0)))
      else Inr None)"
  by (simp add: stages_qualify_def)

lemma first_unanswered_contact:
  "first_unanswered stages_contact ld =
     (if ld ''name'' = None then Inr (Some (stages_contact ! 0))
      else if ld ''email'' = None then Inr (Some (stages_contact ! Suc 0))
      else if ld ''phone'' = None then Inr (Some (stages_contact ! Suc (Suc 0)))
      else Inr None)"
  by (simp add: stages_contact_def)

lemma gnq_contact:
  assumes "conversation_stage s = ''contact''"
  shows "get_next_question s =
     (if lead_data s ''name'' = None then (stages_contact ! 0, s)
      else if lead_data s ''email'' = None then (stages_contact ! Suc 0, s)
      else if lead_data s ''phone'' = None then (stages_contact ! Suc (Suc 0), s)
      else (stages_schedule, s\<lparr>conversation_stage := ''schedule''\<rparr>))"
  using assms by (subst get_next_question.simps) (simp add: first_unanswered_contact)

lemma gnq_qualify:
  assumes "conversation_stage s = ''qualify''"
  shows "get_next_question s =
     (if lead_data s ''budget'' = None then (stages_qualify ! 0, s)
      else if lead_data s ''timeline'' = None then (stages_qualify ! Suc 0, s)
      else if lead_data s ''interest_level'' = None then (stages_qualify ! Suc (Suc 0), s)
      else get_next_question (s\<lparr>conversation_stage := ''contact''\<rparr>))"
  using assms by (subst get_next_question.simps) (simp add: first_unanswered_qualify)

lemma gnq_other:
  assumes "conversation_stage s \<noteq> ''qualify''" and "conversation_stage s \<noteq> ''contact''"
  shows "get_next_question s =
     (if conversation_stage s = ''greeting'' then (stages_greeting, s)
      else if conversation_stage s = ''schedule'' then (stages_schedule, s)
      else (fallback_question, s))"
  using assms by (subst get_next_question.simps) simp

lemma stage_fields:
  "field (stages_qualify ! 0) = Some ''budget''"
  "field (stages_qualify ! Suc 0) = Some ''timeline''"
  "field (stages_qualify ! Suc (Suc 0)) = Some ''interest_level''"
  "field (stages_contact ! 0) = Some ''name''"
  "field (stages_contact ! Suc 0) = Some ''email''"
  "field (stages_contact ! Suc (Suc 0)) = Some ''phone''"
  "field stages_greeting = None"
  "field stages_schedule = None"
  "field fallback_question = None"
  by (simp_all add: stages_qualify_def stages_contact_def stages_greeting_def
      stages_schedule_def fallback_question_def)

lemma gnq_lead_data: "lead_data (snd (get_next_question s)) = lead_data s"
  by (cases "conversation_stage s = ''qualify''"; cases "conversation_stage s = ''contact''")
     (simp_all add: gnq_qualify gnq_contact gnq_other)

lemma gnq_qualify_session:
  "get_next_question qualify_session = (stages_qualify ! 0, qualify_session)"
  by (simp add: gnq_qualify qualify_session_def initial_session_def)

text \<open>
  C3. \<open>get_next_question\<close> takes the stage away from \<open>qualify\<close> only when budget,
  timeline and interest_level are all in the lead data (it then goes on to \<open>contact\<close>,
  and from there to \<open>schedule\<close> in the same call when the contact fields are there too),
  and from \<open>contact\<close> to \<open>schedule\<close> only when name, email and phone are all in the lead
  data; when one of the stage's fields is missing, the stage is left as it is.
\<close>

theorem stage_advances_when_fields_present:
  assumes "get_next_question s = (q, s')"
  shows "(conversation_stage s = ''qualify'' \<and> conversation_stage s' \<noteq> ''qualify'' \<longrightarrow>
            lead_data s ''budget'' \<noteq> None \<and> lead_data s ''timeline'' \<noteq> None
            \<and> lead_data s ''interest_level'' \<noteq> None
            \<and> conversation_stage s' \<in> {''contact'', ''schedule''})
       \<and> (conversation_stage s = ''contact'' \<and> conversation_stage s' \<noteq> ''contact'' \<longrightarrow>
            lead_data s ''name'' \<noteq> None \<and> lead_data s ''email'' \<noteq> None
            \<and> lead_data s ''phone'' \<noteq> None
            \<and> conversation_stage s' = ''schedule'')
       \<and> (conversation_stage s = ''qualify'' \<and>
            (lead_data s ''budget'' = None \<or> lead_data s ''timeline'' = None
             \<or> lead_data s ''interest_level'' = None) \<longrightarrow>
            conversation_stage s' = ''qualify'')
       \<and> (conversation_stage s = ''contact'' \<and>
            (lead_data s ''name'' = None \<or> lead_data s ''email'' = None
             \<or> lead_data s ''phone'' = None) \<longrightarrow>
            conversation_stage s' = ''contact'')"
  using assms
  by (auto simp: gnq_qualify gnq_contact split: if_splits)

theorem stage_advances_witness:
  "get_next_question qualified_session =
     (stages_contact ! 0, qualified_session\<lparr>conversation_stage := ''contact''\<rparr>)
   \<and> conversation_stage qualified_session = ''qualify''
   \<and> lead_data qualified_session ''budget'' \<noteq> None
   \<and> lead_data qualified_session ''timeline'' \<noteq> None
   \<and> lead_data qualified_session ''interest_level'' \<noteq> None"
proof -
  have g: "get_next_question qualified_session =
      (stages_contact ! 0, qualified_session\<lparr>conversation_stage := ''contact''\<rparr>)"
    by (simp add: gnq_qualify gnq_contact qualified_session_def initial_session_def hot_lead_def)
  have st: "conversation_stage qualified_session = ''qualify''"
    by (simp add: qualified_session_def)
  show ?thesis
    using stage_advances_when_fields_present [OF g] g st by simp
qed

text \<open>
  C6. Whatever the stage and the lead data, a question that \<open>get_next_question\<close> returns
  with a \<open>field\<close> entry asks for a field that is not in the lead data.
\<close>

theorem question_field_unanswered:
  assumes "get_next_question s = (q, s')" and "field q = Some f"
  shows "lead_data s f = None"
proof (cases "conversation_stage s = ''qualify''")
  case True
  then show ?thesis
    using assms by (auto simp: gnq_qualify gnq_contact stage_fields split: if_splits)
next
  case False
  then show ?thesis
    using assms
    by (cases "conversation_stage s = ''contact''")
       (auto simp: gnq_contact gnq_other stage_fields split: if_splits)
qed

theorem question_field_unanswered_witness:
  "get_next_question qualify_session = (stages_qualify ! 0, qualify_session)
   \<and> field (stages_qualify ! 0) = Some ''budget''
   \<and> lead_data qualify_session ''budget'' = None"
  using question_field_unanswered [OF gnq_qualify_session stage_fields(1)]
    gnq_qualify_session stage_fields(1)
  by simp

text \<open>
  C9. In every stage other than greeting, qualify, contact and schedule (such as
  \<open>completed\<close>, or any unknown string) \<open>get_next_question\<close> returns the fallback question,
  \<open>How can I help you today?\<close> of type \<open>fallback\<close>, and leaves the session as it is.
\<close>

theorem fallback_outside_stages:
  assumes "conversation_stage s \<notin> {''greeting'', ''qualify'', ''contact'', ''schedule''}"
  shows "get_next_question s = (fallback_question, s)
       \<and> question_text fallback_question = ''How can I help you today?''
       \<and> qtype fallback_question = ''fallback''"
  using assms by (simp add: gnq_other fallback_question_def)

theorem fallback_outside_stages_witness:
  "conversation_stage completed_session \<notin> {''greeting'', ''qualify'', ''contact'', ''schedule''}
   \<and> get_next_question completed_session = (fallback_question, completed_session)"
proof -
  have h: "conversation_stage completed_session
      \<notin> {''greeting'', ''qualify'', ''contact'', ''schedule''}"
    by (simp add: completed_session_def)
  show ?thesis
    using fallback_outside_stages [OF h] h by simp
qed

section \<open>The lead scorer\<close>

lemma criteria_items:
  "dict_item QUALIFICATION_CRITERIA ''budget'' = Inr \<lparr>threshold = 10000, weight = 4 / 10\<rparr>"
  "dict_item QUALIFICATION_CRITERIA ''timeline'' = Inr \<lparr>threshold = 30, weight = 3 / 10\<rparr>"
  "dict_item QUALIFICATION_CRITERIA ''interest_level'' = Inr \<lparr>threshold = 7, weight = 3 / 10\<rparr>"
  by (simp_all add: dict_item_def QUALIFICATION_CRITERIA_def)

lemma lead_score_spec:
  "lead_score b t i = Inr (of_int (spec_score (float_ge b 10000) (t \<le> 30) (7 \<le> i)))"
  by (simp add: lead_score_def criteria_items spec_score_def)

lemma categorize_spec: "categorize (of_int n) = spec_category n"
proof -
  have "(80 \<le> (of_int n :: rat)) = (80 \<le> n)" and "(50 \<le> (of_int n :: rat)) = (50 \<le> n)"
    by linarith+
  then show ?thesis
    by (simp add: categorize_def spec_category_def)
qed

lemma hot_lead_parses:
  shows "py_float (case hot_lead ''budget'' of Some v \<Rightarrow> v | None \<Rightarrow> VInt 0) = Inr (Finite 10000)"
    and "py_int 4300 (case hot_lead ''timeline'' of Some v \<Rightarrow> v | None \<Rightarrow> VInt 999) = Inr 30"
    and "py_int 4300 (case hot_lead ''interest_level'' of Some v \<Rightarrow> v | None \<Rightarrow> VInt 0) = Inr 7"
proof -
  show "py_float (case hot_lead ''budget'' of Some v \<Rightarrow> v | None \<Rightarrow> VInt 0) = Inr (Finite 10000)"
    by code_simp
  show "py_int 4300 (case hot_lead ''timeline'' of Some v \<Rightarrow> v | None \<Rightarrow> VInt 999) = Inr 30"
    by code_simp
  show "py_int 4300 (case hot_lead ''interest_level'' of Some v \<Rightarrow> v | None \<Rightarrow> VInt 0) = Inr 7"
    by code_simp
qed

lemma warm_lead_parses:
  shows "py_float (case warm_lead ''budget'' of Some v \<Rightarrow> v | None \<Rightarrow> VInt 0) = Inr (Finite 500)"
    and "py_int 4300 (case warm_lead ''timeline'' of Some v \<Rightarrow> v | None \<Rightarrow> VInt 999) = Inr 14"
    and "py_int 4300 (case warm_lead ''interest_level'' of Some v \<Rightarrow> v | None \<Rightarrow> VInt 0) = Inr 9"
proof -
  show "py_float (case warm_lead ''budget'' of Some v \<Rightarrow> v | None \<Rightarrow> VInt 0) = Inr (Finite 500)"
    by code_simp
  show "py_int 4300 (case warm_lead ''timeline'' of Some v \<Rightarrow> v | None \<Rightarrow> VInt 999) = Inr 14"
    by code_simp
  show "py_int 4300 (case warm_lead ''interest_level'' of Some v \<Rightarrow> v | None \<Rightarrow> VInt 0) = Inr 9"
    by code_simp
qed

text \<open>
  C1. When \<open>float\<close> of the budget and \<open>int\<close> of the timeline and of the interest level
  succeed (on the value in the lead data, or on the default 0, 999, 0 where the field is
  missing), the score that \<open>qualify_lead\<close> adds up is the specification's 40 + 30 + 30
  and the category it returns is Hot from 80, Warm from 50 and Cold below; in particular
  it returns Hot when the three thresholds are met.
\<close>

theorem qualify_lead_weighted_score:
  assumes "py_float (case ld ''budget'' of Some v \<Rightarrow> v | None \<Rightarrow> VInt 0) = Inr budget"
    and "py_int mx (case ld ''timeline'' of Some v \<Rightarrow> v | None \<Rightarrow> VInt 999) = Inr timeline"
    and "py_int mx (case ld ''interest_level'' of Some v \<Rightarrow> v | None \<Rightarrow> VInt 0)
           = Inr interest_level"
  shows "lead_score budget timeline interest_level =
           Inr (of_int (spec_score (float_ge budget 10000) (timeline \<le> 30) (interest_level \<ge> 7)))
       \<and> qualify_lead mx ld =
           spec_category (spec_score (float_ge budget 10000) (timeline \<le> 30) (interest_level \<ge> 7))
       \<and> (float_ge budget 10000 \<and> timeline \<le> 30 \<and> interest_level \<ge> 7
            \<longrightarrow> qualify_lead mx ld = ''Hot'')"
proof -
  let ?n = "spec_score (float_ge budget 10000) (timeline \<le> 30) (interest_level \<ge> 7)"
  have q: "qualify_lead mx ld = spec_category ?n"
    using assms
    by (simp add: qualify_lead_def qualify_lead_try_def dict_get_def lead_score_spec
        categorize_spec)
  moreover have "float_ge budget 10000 \<and> timeline \<le> 30 \<and> interest_level \<ge> 7
      \<longrightarrow> spec_category ?n = ''Hot''"
    by (simp add: spec_score_def spec_category_def)
  ultimately show ?thesis
    by (simp add: lead_score_spec)
qed

theorem qualify_lead_weighted_score_witness:
  "py_float (VStr ''10000'') = Inr (Finite 10000) \<and> py_int 4300 (VStr ''30'') = Inr 30
   \<and> py_int 4300 (VStr ''7'') = Inr 7 \<and> qualify_lead 4300 hot_lead = ''Hot''"
proof -
  have p: "py_float (VStr ''10000'') = Inr (Finite 10000) \<and> py_int 4300 (VStr ''30'') = Inr 30
      \<and> py_int 4300 (VStr ''7'') = Inr 7"
    by code_simp
  have m: "float_ge (Finite 10000) 10000 \<and> (30::int) \<le> 30 \<and> (7::int) \<le> 7"
    by simp
  show ?thesis
    using qualify_lead_weighted_score [OF hot_lead_parses] p m by blast
qed

text \<open>
  C4. When the budget, the timeline or the interest level in the lead data is a string
  that \<open>float\<close> (for the budget) or \<open>int\<close> (for the other two) does not parse, the \<open>try\<close>
  raises and \<open>qualify_lead\<close> returns Cold.
\<close>

theorem qualify_lead_parse_error_cold:
  assumes "(ld ''budget'' = Some (VStr s) \<and> float_of_str s = Inl e)
         \<or> (ld ''timeline'' = Some (VStr s) \<and> int_of_str mx s = Inl e)
         \<or> (ld ''interest_level'' = Some (VStr s) \<and> int_of_str mx s = Inl e)"
  shows "isl (qualify_lead_try mx ld) \<and> qualify_lead mx ld = ''Cold''"
  using assms
  by (auto simp: qualify_lead_def qualify_lead_try_def dict_get_def split: sum.splits)

theorem qualify_lead_parse_error_cold_witness:
  "bad_budget_lead ''budget'' = Some (VStr ''ten thousand'')
   \<and> float_of_str ''ten thousand'' = Inl ValueError
   \<and> qualify_lead 4300 bad_budget_lead = ''Cold''"
proof -
  have h: "bad_budget_lead ''budget'' = Some (VStr ''ten thousand'')
      \<and> float_of_str ''ten thousand'' = Inl ValueError"
    by code_simp
  then show ?thesis
    using qualify_lead_parse_error_cold [of bad_budget_lead "''ten thousand''" ValueError 4300]
    by blast
qed

text \<open>
  C5. When exactly two of the three thresholds are met by the parsed values,
  \<open>qualify_lead\<close> returns Warm: the score is 70 for budget with timeline and for budget
  with interest, and 60 for timeline with interest.
\<close>

theorem two_thresholds_warm:
  assumes "py_float (case ld ''budget'' of Some v \<Rightarrow> v | None \<Rightarrow> VInt 0) = Inr budget"
    and "py_int mx (case ld ''timeline'' of Some v \<Rightarrow> v | None \<Rightarrow> VInt 999) = Inr timeline"
    and "py_int mx (case ld ''interest_level'' of Some v \<Rightarrow> v | None \<Rightarrow> VInt 0)
           = Inr interest_level"
  shows "(float_ge budget 10000 \<and> timeline \<le> 30 \<and> \<not> interest_level \<ge> 7 \<longrightarrow>
            lead_score budget timeline interest_level = Inr 70 \<and> qualify_lead mx ld = ''Warm'')
       \<and> (float_ge budget 10000 \<and> \<not> timeline \<le> 30 \<and> interest_level \<ge> 7 \<longrightarrow>
            lead_score budget timeline interest_level = Inr 70 \<and> qualify_lead mx ld = ''Warm'')
       \<and> (\<not> float_ge budget 10000 \<and> timeline \<le> 30 \<and> interest_level \<ge> 7 \<longrightarrow>
            lead_score budget timeline interest_level = Inr 60 \<and> qualify_lead mx ld = ''Warm'')"
  using assms
  by (simp add: qualify_lead_def qualify_lead_try_def dict_get_def lead_score_def
      criteria_items categorize_def)

theorem two_thresholds_warm_witness:
  "\<not> float_ge (Finite 500) 10000 \<and> (14::int) \<le> 30 \<and> (7::int) \<le> 9
   \<and> lead_score (Finite 500) 14 9 = Inr 60 \<and> qualify_lead 4300 warm_lead = ''Warm''"
proof -
  have m: "\<not> float_ge (Finite 500) 10000 \<and> (14::int) \<le> 30 \<and> (7::int) \<le> 9"
    by simp
  show ?thesis
    using two_thresholds_warm [OF warm_lead_parses] m by blast
qed

end
